theory Spec2Isabelle
  imports Main "HOL-Library.Sublist"
begin

section \<open>Open Prism API (prism.py): a shallow embedding\<close>

text \<open>
  The module is a facade over an external Prism core object. Everything it does is
  an import attempt, a read of an attribute, a call on the host or on the core, or
  a raise. The embedding makes each of these explicit:
  \<^item> the process the module runs in is a record \<open>world\<close>: which host modules can be
    imported and what they answer, the file system's existence test, the module's
    global \<open>CORE\<close>, and a trace of the imports and external calls made so far;
  \<^item> a Python function is a function from the world to a result and the new world;
    the result is \<open>Inl\<close> of the exception raised or \<open>Inr\<close> of the value returned;
  \<^item> Python's \<open>None\<close> is \<open>None\<close> of an option type; a \<open>str\<close> is a \<open>string\<close>.

  The external objects are typed by what prism.py reads from them: the core's three path
  and name attributes are strings, a descriptor's entries are strings, the scene
  providers answer with a string. In a \<open>world\<close> an \<open>import\<close> either finds its module
  or raises \<open>ModuleNotFoundError\<close>, the one exception the source's handlers expect, and
  the module \<open>PrismInit\<close>, when it is there, has its attribute \<open>pcore\<close>; a method of the
  core may raise. \<open>get_core\<close> is first written for any outcome of \<open>import PrismInit\<close>
  and any module object (\<open>get_core_of\<close>), where the import can fail in other ways and
  the attribute can be missing, and then taken at the world's \<open>PrismInit\<close>. The functions
  \<open>get_export_locations\<close>, \<open>get_render_locations\<close> and \<open>get_shot_range\<close> are plain
  forwarding calls and are not modelled here.
\<close>

subsection \<open>Exceptions\<close>

text \<open>
  \<open>OpenPrismAPIError\<close> is the module's own exception class (with its message),
  \<open>ModuleNotFoundError\<close> is what a failed \<open>import\<close> raises (with the module's name),
  \<open>AttributeError\<close> is what reading a missing attribute raises (with the attribute's
  name), and \<open>ForeignError\<close> stands for any exception raised inside external code
  (a method of the core, or a module while it is imported), which the module never
  catches.
\<close>

datatype exn =
    OpenPrismAPIError string
  | ModuleNotFoundError string
  | AttributeError string
  | ForeignError string

subsection \<open>The external objects\<close>

text \<open>
  A scene-file or export descriptor is a Python dict with string keys; \<open>d.get(k)\<close>
  is \<open>map_of d k\<close>.
\<close>

type_synonym descriptor = "(string \<times> string) list"

text \<open>A plugin object as the core hands it out, with its Python truth value.\<close>

record plugin =
  plugin_name :: string
  plugin_bool :: bool

text \<open>
  The core object: the attributes and methods that prism.py uses. \<open>core_bool\<close> is the
  object's Python truth value (\<open>bool(core)\<close>), which the source tests with
  \<open>not core\<close> in some functions and bypasses with \<open>core is None\<close> in others.
  A method returns \<open>Inl msg\<close> when the core raises inside it.
\<close>

record core =
  core_bool :: bool
  projectName :: string
  projectPath :: string
  prismRoot :: string
  plugins_getPlugin :: "string \<Rightarrow> string + plugin option"
  getScenefileData :: "string \<Rightarrow> string + descriptor"
  products_generateProductPath ::
    "descriptor \<Rightarrow> string \<Rightarrow> string \<Rightarrow> int option \<Rightarrow> int option \<Rightarrow>
     string option \<Rightarrow> string option \<Rightarrow> string + descriptor"
  products_updateMasterVersion :: "string \<Rightarrow> string + unit"
  mediaProducts_generateMediaProductPath ::
    "descriptor \<Rightarrow> string \<Rightarrow> string \<Rightarrow> string option \<Rightarrow> string option \<Rightarrow>
     string + descriptor"
  mediaProducts_generatePlayblastPath ::
    "descriptor \<Rightarrow> string \<Rightarrow> string \<Rightarrow> string option \<Rightarrow> string option \<Rightarrow>
     string + descriptor"
  mediaProducts_updateMasterVersion :: "string \<Rightarrow> string option \<Rightarrow> string + unit"
  parentWindow :: "string + unit"

text \<open>The host modules, each reduced to what prism.py reads from it.\<close>

record PrismInit_module =
  pcore :: "core option"

record maya_cmds_module =
  cmds_file_sceneName :: string

record hou_module =
  hipFile_path :: string

record ProductBrowser_module =
  productPath :: "string option"

subsection \<open>The trace of imports and external calls\<close>

datatype event =
    Import string
  | Os_path_exists string
  | Maya_cmds_file
  | Hou_hipFile_path
  | Core_plugins_getPlugin string
  | Core_getScenefileData string
  | Core_products_generateProductPath
      descriptor string string "int option" "int option" "string option" "string option"
  | Core_products_updateMasterVersion string
  | Core_mediaProducts_generateMediaProductPath
      descriptor string string "string option" "string option"
  | Core_mediaProducts_generatePlayblastPath
      descriptor string string "string option" "string option"
  | Core_mediaProducts_updateMasterVersion string "string option"
  | Core_parentWindow
  | ProductBrowser_init
  | ProductBrowser_exec

text \<open>The events that are method calls on the core object.\<close>

fun is_core_call :: "event \<Rightarrow> bool" where
  "is_core_call (Core_plugins_getPlugin _) = True"
| "is_core_call (Core_getScenefileData _) = True"
| "is_core_call (Core_products_generateProductPath _ _ _ _ _ _ _) = True"
| "is_core_call (Core_products_updateMasterVersion _) = True"
| "is_core_call (Core_mediaProducts_generateMediaProductPath _ _ _ _ _) = True"
| "is_core_call (Core_mediaProducts_generatePlayblastPath _ _ _ _ _) = True"
| "is_core_call (Core_mediaProducts_updateMasterVersion _ _) = True"
| "is_core_call Core_parentWindow = True"
| "is_core_call _ = False"

text \<open>The events that are calls of one of the core's path-generation methods.\<close>

fun is_path_generation :: "event \<Rightarrow> bool" where
  "is_path_generation (Core_products_generateProductPath _ _ _ _ _ _ _) = True"
| "is_path_generation (Core_mediaProducts_generateMediaProductPath _ _ _ _ _) = True"
| "is_path_generation (Core_mediaProducts_generatePlayblastPath _ _ _ _ _) = True"
| "is_path_generation _ = False"

subsection \<open>The world and the monad of Python functions\<close>

text \<open>
  A host module is \<open>None\<close> when its import raises \<open>ModuleNotFoundError\<close>.
  \<open>CORE\<close> is the module's global of line 44.
\<close>

record world =
  PrismInit :: "PrismInit_module option"
  maya_cmds :: "maya_cmds_module option"
  hou :: "hou_module option"
  ProductBrowser :: "ProductBrowser_module option"
  os_path_exists :: "string \<Rightarrow> bool"
  CORE :: "core option"
  trace :: "event list"

type_synonym 'a py = "world \<Rightarrow> (exn + 'a) \<times> world"

definition return_py :: "'a \<Rightarrow> 'a py" where
  "return_py v w = (Inr v, w)"

definition raise_py :: "exn \<Rightarrow> 'a py" where
  "raise_py e w = (Inl e, w)"

definition bind_py :: "'a py \<Rightarrow> ('a \<Rightarrow> 'b py) \<Rightarrow> 'b py" where
  "bind_py m f w = (case m w of (Inl e, w') \<Rightarrow> (Inl e, w') | (Inr v, w') \<Rightarrow> f v w')"

definition gets :: "(world \<Rightarrow> 'a) \<Rightarrow> 'a py" where
  "gets f w = (Inr (f w), w)"

definition log_event :: "event \<Rightarrow> world \<Rightarrow> world" where
  "log_event e w = w\<lparr>trace := trace w @ [e]\<rparr>"

text \<open>\<open>import name\<close>: logged, and \<open>ModuleNotFoundError\<close> when the host has no such module.\<close>

definition import_module :: "string \<Rightarrow> (world \<Rightarrow> 'm option) \<Rightarrow> 'm py" where
  "import_module name sel w =
     (case sel w of
        None \<Rightarrow> (Inl (ModuleNotFoundError name), log_event (Import name) w)
      | Some m \<Rightarrow> (Inr m, log_event (Import name) w))"

text \<open>
  \<open>import name\<close> with any outcome: \<open>host w\<close> is the exception the import raises in
  this process, or the module object it binds.
\<close>

definition import_outcome :: "string \<Rightarrow> (world \<Rightarrow> exn + 'm) \<Rightarrow> 'm py" where
  "import_outcome name host w = (host w, log_event (Import name) w)"

text \<open>
  A module object as a table of its attributes, and \<open>m.name\<close>: the attribute's value,
  or \<open>AttributeError\<close> when the module has no such attribute. The one attribute read
  in prism.py holds \<open>None\<close> or a core object.
\<close>

type_synonym module_object = "string \<rightharpoonup> core option"

definition getattr_py :: "module_object \<Rightarrow> string \<Rightarrow> core option py" where
  "getattr_py m name w =
     (case m name of
        None \<Rightarrow> (Inl (AttributeError name), w)
      | Some v \<Rightarrow> (Inr v, w))"

text \<open>\<open>try: body  except ModuleNotFoundError: handler\<close>; any other exception goes on.\<close>

definition try_except_ModuleNotFoundError :: "'a py \<Rightarrow> 'a py \<Rightarrow> 'a py" where
  "try_except_ModuleNotFoundError body handler w =
     (case body w of
        (Inl (ModuleNotFoundError n), w') \<Rightarrow> handler w'
      | (Inl e, w') \<Rightarrow> (Inl e, w')
      | (Inr v, w') \<Rightarrow> (Inr v, w'))"

text \<open>A call on the host (which answers) and a method call on the core (which may raise).\<close>

definition host_call :: "event \<Rightarrow> 'a \<Rightarrow> 'a py" where
  "host_call ev v w = (Inr v, log_event ev w)"

definition core_call :: "event \<Rightarrow> string + 'a \<Rightarrow> 'a py" where
  "core_call ev r w =
     (case r of
        Inl msg \<Rightarrow> (Inl (ForeignError msg), log_event ev w)
      | Inr v \<Rightarrow> (Inr v, log_event ev w))"

text \<open>\<open>os.path.exists(path)\<close>.\<close>

definition os_path_exists_py :: "string \<Rightarrow> bool py" where
  "os_path_exists_py path w = (Inr (os_path_exists w path), log_event (Os_path_exists path) w)"

subsection \<open>Python's truth values and \<open>str.replace\<close>\<close>

text \<open>\<open>bool(x)\<close> for a value that is \<open>None\<close> or an object whose truth value \<open>b\<close> gives.\<close>

definition truthy_obj :: "('a \<Rightarrow> bool) \<Rightarrow> 'a option \<Rightarrow> bool" where
  "truthy_obj b x = (case x of None \<Rightarrow> False | Some c \<Rightarrow> b c)"

text \<open>
  The truth value of a function object: a Python function defines neither
  \<open>__bool__\<close> nor \<open>__len__\<close>, so it is true whatever the function is.
\<close>

definition truthy_function :: "'f \<Rightarrow> bool" where
  "truthy_function f = True"

definition backslash :: char where
  "backslash = CHR 0x5C"

text \<open>\<open>s.replace(old, new)\<close> for one-character \<open>old\<close> and \<open>new\<close>, as in \<open>replace("\\", "/")\<close>.\<close>

definition replace :: "char \<Rightarrow> char \<Rightarrow> string \<Rightarrow> string" where
  "replace old new s = map (\<lambda>c. if c = old then new else c) s"

subsection \<open>The functions of prism.py\<close>

text \<open>Line 44, run when the module is loaded: \<open>CORE = None\<close>.\<close>

definition module_init :: "world \<Rightarrow> world" where
  "module_init w = w\<lparr>CORE := None\<rparr>"

text \<open>
  \<open>get_core\<close> (lines 47-60), for any outcome \<open>host\<close> of \<open>import PrismInit\<close>. The
  \<open>try\<close> statement (lines 55-58) either binds the module (\<open>Inr m\<close>) or, in its
  handler, returns \<open>CORE\<close> from the function (\<open>Inl c\<close>); only
  \<open>ModuleNotFoundError\<close> is handled. Line 60, after the \<open>try\<close>, reads the attribute
  \<open>pcore\<close> of the module.
\<close>

definition get_core_of :: "(world \<Rightarrow> exn + module_object) \<Rightarrow> core option py" where
  "get_core_of host =
     bind_py
       (try_except_ModuleNotFoundError
          (bind_py (import_outcome ''PrismInit'' host) (\<lambda>m. return_py (Inr m)))
          (bind_py (gets CORE) (\<lambda>c. return_py (Inl c))))
       (\<lambda>r. case r of
              Inl c \<Rightarrow> return_py c
            | Inr m \<Rightarrow> getattr_py m ''pcore'')"

text \<open>
  What \<open>import PrismInit\<close> does in a \<open>world\<close>: \<open>ModuleNotFoundError\<close> when the host
  has no such module, else the module with its attribute \<open>pcore\<close>.
\<close>

definition PrismInit_import :: "world \<Rightarrow> exn + module_object" where
  "PrismInit_import w =
     (case PrismInit w of
        None \<Rightarrow> Inl (ModuleNotFoundError ''PrismInit'')
      | Some m \<Rightarrow> Inr [''pcore'' \<mapsto> pcore m])"

text \<open>\<open>get_core\<close> in a \<open>world\<close>; every other function below calls this one.\<close>

definition get_core :: "core option py" where
  "get_core = get_core_of PrismInit_import"

text \<open>\<open>set_core\<close> (lines 63-71).\<close>

definition set_core :: "core option \<Rightarrow> unit py" where
  "set_core new_core w = (Inr (), w\<lparr>CORE := new_core\<rparr>)"

text \<open>\<open>is_prism\<close> (lines 74-81).\<close>

definition is_prism :: "bool py" where
  "is_prism =
     bind_py get_core (\<lambda>core.
       if \<not> truthy_obj core_bool core then return_py False else return_py True)"

text \<open>\<open>get_maya_plugin\<close> (lines 84-94) and \<open>is_maya_plugin\<close> (lines 97-104).\<close>

definition get_maya_plugin :: "plugin option py" where
  "get_maya_plugin =
     bind_py get_core (\<lambda>core.
       case core of
         None \<Rightarrow> return_py None
       | Some c \<Rightarrow> core_call (Core_plugins_getPlugin ''Maya'') (plugins_getPlugin c ''Maya''))"

definition is_maya_plugin :: "bool py" where
  "is_maya_plugin =
     bind_py get_maya_plugin (\<lambda>p.
       if \<not> truthy_obj plugin_bool p then return_py False else return_py True)"

text \<open>\<open>get_houdini_plugin\<close> (lines 107-117) and \<open>is_houdini_plugin\<close> (lines 120-127).\<close>

definition get_houdini_plugin :: "plugin option py" where
  "get_houdini_plugin =
     bind_py get_core (\<lambda>core.
       case core of
         None \<Rightarrow> return_py None
       | Some c \<Rightarrow>
           core_call (Core_plugins_getPlugin ''Houdini'') (plugins_getPlugin c ''Houdini''))"

definition is_houdini_plugin :: "bool py" where
  "is_houdini_plugin =
     bind_py get_houdini_plugin (\<lambda>p.
       if \<not> truthy_obj plugin_bool p then return_py False else return_py True)"

text \<open>\<open>get_project_name\<close> (lines 130-140): a \<open>str\<close>.\<close>

definition get_project_name :: "string py" where
  "get_project_name =
     bind_py get_core (\<lambda>core.
       case core of
         None \<Rightarrow> return_py ''''
       | Some c \<Rightarrow> return_py (projectName c))"

text \<open>\<open>get_project_path\<close> (lines 143-153): a \<open>str\<close>.\<close>

definition get_project_path :: "string py" where
  "get_project_path =
     bind_py get_core (\<lambda>core.
       case core of
         None \<Rightarrow> return_py ''''
       | Some c \<Rightarrow> return_py (replace backslash CHR ''/'' (projectPath c)))"

text \<open>\<open>get_prism_folder\<close> (lines 156-166): \<open>None\<close> or a \<open>str\<close>.\<close>

definition get_prism_folder :: "string option py" where
  "get_prism_folder =
     bind_py get_core (\<lambda>core.
       case core of
         None \<Rightarrow> return_py None
       | Some c \<Rightarrow> return_py (Some (replace backslash CHR ''/'' (prismRoot c))))"

text \<open>
  \<open>get_curr_scene_file_path\<close> (lines 169-197). The local \<open>scene_file\<close> starts as
  \<open>None\<close>; each \<open>try\<close> block that gets through its import assigns it.
\<close>

definition get_curr_scene_file_path :: "string py" where
  "get_curr_scene_file_path =
     bind_py
       (try_except_ModuleNotFoundError
          (bind_py (import_module ''maya'' maya_cmds) (\<lambda>cmds.
             bind_py (host_call Maya_cmds_file (cmds_file_sceneName cmds)) (\<lambda>s.
               return_py (Some s))))
          (return_py None))
       (\<lambda>scene_file.
          bind_py
            (try_except_ModuleNotFoundError
               (bind_py (import_module ''hou'' hou) (\<lambda>h.
                  bind_py (host_call Hou_hipFile_path (hipFile_path h)) (\<lambda>s.
                    return_py (Some s))))
               (return_py scene_file))
            (\<lambda>scene_file.
               case scene_file of
                 None \<Rightarrow> return_py ''''
               | Some s \<Rightarrow>
                   if s = [] then return_py ''''
                   else return_py (replace backslash CHR ''/'' s)))"

text \<open>\<open>is_scene_in_prism\<close> (lines 200-211); \<open>startswith\<close> is \<open>prefix\<close>.\<close>

definition is_scene_in_prism :: "bool py" where
  "is_scene_in_prism =
     bind_py get_curr_scene_file_path (\<lambda>curr_scene.
       bind_py get_project_path (\<lambda>prism_project.
         if curr_scene = [] \<or> prism_project = [] then return_py False
         else return_py (prefix prism_project curr_scene)))"

text \<open>\<open>get_scene_file_data\<close> (lines 214-230).\<close>

definition get_scene_file_data :: "string \<Rightarrow> descriptor py" where
  "get_scene_file_data scene_path =
     bind_py get_core (\<lambda>core.
       case core of
         None \<Rightarrow> raise_py (OpenPrismAPIError ''(get_scene_file_data) Prism core was not found.'')
       | Some c \<Rightarrow>
           if \<not> core_bool c
           then raise_py (OpenPrismAPIError ''(get_scene_file_data) Prism core was not found.'')
           else core_call (Core_getScenefileData scene_path) (getScenefileData c scene_path))"

text \<open>
  \<open>get_task\<close> (lines 233-252). The first test is \<open>if not is_scene_in_prism:\<close>, on the
  function object: the function is not called. The argument \<open>scene_path\<close> is \<open>None\<close>
  or a \<open>str\<close>.
\<close>

definition get_task :: "string option \<Rightarrow> string option py" where
  "get_task scene_path =
     (if \<not> truthy_function is_scene_in_prism
      then raise_py (OpenPrismAPIError ''(get_task) The current scene is not in Prism.'')
      else
        bind_py
          (case scene_path of
             None \<Rightarrow> get_curr_scene_file_path
           | Some p \<Rightarrow> if p = [] then get_curr_scene_file_path else return_py p)
          (\<lambda>scene_path.
             bind_py (get_scene_file_data scene_path) (\<lambda>d. return_py (map_of d ''task''))))"

text \<open>\<open>get_department\<close> (lines 255-274), with the same first test.\<close>

definition get_department :: "string option \<Rightarrow> string option py" where
  "get_department scene_path =
     (if \<not> truthy_function is_scene_in_prism
      then raise_py (OpenPrismAPIError ''(get_department) The current scene is not in Prism.'')
      else
        bind_py
          (case scene_path of
             None \<Rightarrow> get_curr_scene_file_path
           | Some p \<Rightarrow> if p = [] then get_curr_scene_file_path else return_py p)
          (\<lambda>scene_path.
             bind_py (get_scene_file_data scene_path) (\<lambda>d.
               return_py (map_of d ''department''))))"

text \<open>\<open>get_product_export_data\<close> (lines 277-327).\<close>

definition get_product_export_data ::
  "string \<Rightarrow> string \<Rightarrow> int option \<Rightarrow> int option \<Rightarrow> string option \<Rightarrow> string option \<Rightarrow>
   descriptor py" where
  "get_product_export_data identifier extension start_frame end_frame comment location =
     bind_py get_core (\<lambda>core.
       case core of
         None \<Rightarrow>
           raise_py (OpenPrismAPIError ''(get_product_export_data) Prism core was not found.'')
       | Some c \<Rightarrow>
           if \<not> core_bool c
           then raise_py
                  (OpenPrismAPIError ''(get_product_export_data) Prism core was not found.'')
           else
             bind_py is_scene_in_prism (\<lambda>in_prism.
               if \<not> in_prism
               then raise_py
                      (OpenPrismAPIError
                         ''(get_product_export_data) the current scene is not in Prism.'')
               else
                 bind_py get_curr_scene_file_path (\<lambda>scene_path.
                   bind_py
                     (core_call (Core_getScenefileData scene_path)
                        (getScenefileData c scene_path))
                     (\<lambda>prism_scene_data.
                        core_call
                          (Core_products_generateProductPath prism_scene_data identifier
                             extension start_frame end_frame comment location)
                          (products_generateProductPath c prism_scene_data identifier
                             extension start_frame end_frame comment location)))))"

text \<open>\<open>get_product_export_file_path\<close> (lines 330-348): \<open>None\<close> or a \<open>str\<close>.\<close>

definition get_product_export_file_path ::
  "string \<Rightarrow> string \<Rightarrow> string option \<Rightarrow> string option py" where
  "get_product_export_file_path identifier extension location =
     bind_py (get_product_export_data identifier extension None None None location) (\<lambda>d.
       case map_of d ''path'' of
         None \<Rightarrow> return_py None
       | Some path \<Rightarrow>
           if path \<noteq> [] then return_py (Some (replace backslash CHR ''/'' path))
           else return_py None)"

text \<open>\<open>set_product_master_version\<close> (lines 351-374).\<close>

definition set_product_master_version :: "string \<Rightarrow> unit py" where
  "set_product_master_version path =
     bind_py (os_path_exists_py path) (\<lambda>ex.
       if \<not> ex
       then raise_py
              (OpenPrismAPIError
                 (''(set_product_master_version) the path do not exist: '' @ path))
       else
         bind_py get_core (\<lambda>core.
           case core of
             None \<Rightarrow>
               raise_py
                 (OpenPrismAPIError ''(set_product_master_version) Prism core was not found.'')
           | Some c \<Rightarrow>
               if \<not> core_bool c
               then raise_py
                      (OpenPrismAPIError
                         ''(set_product_master_version) Prism core was not found.'')
               else
                 core_call (Core_products_updateMasterVersion path)
                   (products_updateMasterVersion c path)))"

text \<open>\<open>get_media_product_data\<close> (lines 377-418).\<close>

definition get_media_product_data ::
  "string \<Rightarrow> string \<Rightarrow> string option \<Rightarrow> string option \<Rightarrow> descriptor py" where
  "get_media_product_data identifier extension comment location =
     bind_py get_core (\<lambda>core.
       case core of
         None \<Rightarrow>
           raise_py (OpenPrismAPIError ''(get_media_product_data) Prism core was not found.'')
       | Some c \<Rightarrow>
           if \<not> core_bool c
           then raise_py
                  (OpenPrismAPIError ''(get_media_product_data) Prism core was not found.'')
           else
             bind_py is_scene_in_prism (\<lambda>in_prism.
               if \<not> in_prism
               then raise_py
                      (OpenPrismAPIError
                         ''(get_media_product_data) the current scene is not in Prism.'')
               else
                 bind_py get_curr_scene_file_path (\<lambda>scene_path.
                   bind_py
                     (core_call (Core_getScenefileData scene_path)
                        (getScenefileData c scene_path))
                     (\<lambda>prism_scene_data.
                        core_call
                          (Core_mediaProducts_generateMediaProductPath prism_scene_data
                             identifier extension comment location)
                          (mediaProducts_generateMediaProductPath c prism_scene_data
                             identifier extension comment location)))))"

text \<open>\<open>get_media_export_file_path\<close> (lines 421-439): \<open>None\<close> or a \<open>str\<close>.\<close>

definition get_media_export_file_path ::
  "string \<Rightarrow> string \<Rightarrow> string option \<Rightarrow> string option py" where
  "get_media_export_file_path identifier extension location =
     bind_py (get_media_product_data identifier extension None location) (\<lambda>d.
       case map_of d ''path'' of
         None \<Rightarrow> return_py None
       | Some path \<Rightarrow>
           if path \<noteq> [] then return_py (Some (replace backslash CHR ''/'' path))
           else return_py None)"

text \<open>\<open>get_playblast_product_data\<close> (lines 442-485).\<close>

definition get_playblast_product_data ::
  "string \<Rightarrow> string \<Rightarrow> string option \<Rightarrow> string option \<Rightarrow> descriptor py" where
  "get_playblast_product_data identifier extension comment location =
     bind_py get_core (\<lambda>core.
       case core of
         None \<Rightarrow>
           raise_py
             (OpenPrismAPIError ''(get_playblast_product_data) Prism core was not found.'')
       | Some c \<Rightarrow>
           if \<not> core_bool c
           then raise_py
                  (OpenPrismAPIError
                     ''(get_playblast_product_data) Prism core was not found.'')
           else
             bind_py is_scene_in_prism (\<lambda>in_prism.
               if \<not> in_prism
               then raise_py
                      (OpenPrismAPIError
                         ''(get_playblast_product_data) the current scene is not in Prism.'')
               else
                 bind_py get_curr_scene_file_path (\<lambda>scene_path.
                   bind_py
                     (core_call (Core_getScenefileData scene_path)
                        (getScenefileData c scene_path))
                     (\<lambda>prism_scene_data.
                        core_call
                          (Core_mediaProducts_generatePlayblastPath prism_scene_data
                             identifier extension comment location)
                          (mediaProducts_generatePlayblastPath c prism_scene_data
                             identifier extension comment location)))))"

text \<open>\<open>get_playblast_export_file_path\<close> (lines 488-508): \<open>None\<close> or a \<open>str\<close>.\<close>

definition get_playblast_export_file_path ::
  "string \<Rightarrow> string \<Rightarrow> string option \<Rightarrow> string option py" where
  "get_playblast_export_file_path identifier extension location =
     bind_py (get_playblast_product_data identifier extension None location) (\<lambda>d.
       case map_of d ''path'' of
         None \<Rightarrow> return_py None
       | Some path \<Rightarrow>
           if path \<noteq> [] then return_py (Some (replace backslash CHR ''/'' path))
           else return_py None)"

text \<open>
  \<open>set_media_master_version\<close> (lines 511-541). The local \<open>media_type\<close> is a \<open>str\<close> or
  \<open>None\<close>, chosen by the \<open>if\<close>/\<open>elif\<close>/\<open>else\<close> chain in the source's order.
\<close>

definition set_media_master_version :: "string \<Rightarrow> bool \<Rightarrow> bool \<Rightarrow> unit py" where
  "set_media_master_version path is_playblast is_2d_render =
     bind_py (os_path_exists_py path) (\<lambda>ex.
       if \<not> ex
       then raise_py
              (OpenPrismAPIError
                 (''(set_media_master_version) the path do not exist: '' @ path))
       else
         bind_py get_core (\<lambda>core.
           case core of
             None \<Rightarrow>
               raise_py
                 (OpenPrismAPIError ''(set_media_master_version) Prism core was not found.'')
           | Some c \<Rightarrow>
               if \<not> core_bool c
               then raise_py
                      (OpenPrismAPIError
                         ''(set_media_master_version) Prism core was not found.'')
               else
                 (let media_type =
                        (if is_playblast then Some ''playblasts''
                         else if is_2d_render then Some ''2drenders''
                         else None)
                  in core_call (Core_mediaProducts_updateMasterVersion path media_type)
                       (mediaProducts_updateMasterVersion c path media_type))))"

text \<open>The three wrappers (lines 544-580); an argument left out takes its default \<open>False\<close>.\<close>

definition set_render_master_version :: "string \<Rightarrow> unit py" where
  "set_render_master_version path = set_media_master_version path False False"

definition set_playblast_master_version :: "string \<Rightarrow> unit py" where
  "set_playblast_master_version path = set_media_master_version path True False"

definition set_2d_render_master_version :: "string \<Rightarrow> unit py" where
  "set_2d_render_master_version path = set_media_master_version path False True"

text \<open>
  \<open>request_products\<close> (lines 619-648). The import of \<open>ProductBrowser\<close> is not inside a
  \<open>try\<close>; \<open>ts.productPath\<close> is read after the dialog has run.
\<close>

definition request_products :: "string list py" where
  "request_products =
     bind_py get_core (\<lambda>core.
       case core of
         None \<Rightarrow> raise_py (OpenPrismAPIError ''(request_products) Prism core was not found.'')
       | Some c \<Rightarrow>
           if \<not> core_bool c
           then raise_py (OpenPrismAPIError ''(request_products) Prism core was not found.'')
           else
             bind_py (import_module ''ProductBrowser'' ProductBrowser) (\<lambda>ts.
               bind_py (host_call ProductBrowser_init ()) (\<lambda>_.
                 bind_py (core_call Core_parentWindow (parentWindow c)) (\<lambda>_.
                   bind_py (host_call ProductBrowser_exec ()) (\<lambda>_.
                     return_py
                       (case productPath ts of
                          None \<Rightarrow> []
                        | Some p \<Rightarrow> if p \<noteq> [] then [p] else []))))))"

subsection \<open>What the world supplies, read off by the functions above\<close>

text \<open>
  Shorthands for the statements below, each only an abbreviation of a term over the
  world: the core object that resolution finds, the scene path the host reports
  (Houdini's answer overrides Maya's when both modules are present), the project path
  attribute of the resolved core, and the events a scene-path query logs.
\<close>

abbreviation resolved_core :: "world \<Rightarrow> core option" where
  "resolved_core w \<equiv> (case PrismInit w of None \<Rightarrow> CORE w | Some m \<Rightarrow> pcore m)"

abbreviation host_scene_file :: "world \<Rightarrow> string" where
  "host_scene_file w \<equiv>
     (case hou w of
        Some h \<Rightarrow> hipFile_path h
      | None \<Rightarrow> (case maya_cmds w of Some m \<Rightarrow> cmds_file_sceneName m | None \<Rightarrow> []))"

abbreviation scene_events :: "world \<Rightarrow> event list" where
  "scene_events w \<equiv>
     (case maya_cmds w of None \<Rightarrow> [Import ''maya''] | Some m \<Rightarrow> [Import ''maya'', Maya_cmds_file]) @
     (case hou w of None \<Rightarrow> [Import ''hou''] | Some h \<Rightarrow> [Import ''hou'', Hou_hipFile_path])"


subsection \<open>Example worlds\<close>

text \<open>
  A core whose project path is the Windows spelling of \<open>C:/proj/alpha/\<close> (with
  backslash separators), and two processes around it, both standalone with the core
  registered through \<open>set_core\<close>: one with a Maya scene inside the project, one whose
  scene lies outside the project.
\<close>

definition example_core :: core where
  "example_core =
     \<lparr>core_bool = True,
      projectName = ''alpha'',
      projectPath = [CHR ''C'', CHR '':'', backslash] @ ''proj'' @ [backslash] @ ''alpha'' @ [backslash],
      prismRoot = [CHR ''C'', CHR '':'', backslash] @ ''Prism2'',
      plugins_getPlugin =
        (\<lambda>name. Inr (if name = ''Maya'' then Some \<lparr>plugin_name = ''Maya'', plugin_bool = True\<rparr>
                        else None)),
      getScenefileData = (\<lambda>p. Inr [(''task'', ''anim''), (''department'', ''layout'')]),
      products_generateProductPath =
        (\<lambda>d i e sf ef cm loc.
           Inr [(''path'', [CHR ''C'', CHR '':'', backslash] @ ''out'' @ [backslash] @ i @ e)]),
      products_updateMasterVersion = (\<lambda>p. Inr ()),
      mediaProducts_generateMediaProductPath =
        (\<lambda>d i e cm loc. Inr [(''path'', ''C:/media/'' @ i @ e)]),
      mediaProducts_generatePlayblastPath =
        (\<lambda>d i e cm loc. Inr [(''path'', ''C:/playblasts/'' @ i @ e)]),
      mediaProducts_updateMasterVersion = (\<lambda>p mt. Inr ()),
      parentWindow = Inr ()\<rparr>"

definition example_world :: world where
  "example_world =
     \<lparr>PrismInit = None,
      maya_cmds = Some \<lparr>cmds_file_sceneName = ''C:/proj/alpha/scenes/shot01.ma''\<rparr>,
      hou = None,
      ProductBrowser =
        Some \<lparr>productPath =
                Some ([CHR ''C'', CHR '':'', backslash] @ ''proj'' @ [backslash] @ ''cube.abc'')\<rparr>,
      os_path_exists = (\<lambda>p. p = ''C:/proj/alpha/renders/beauty.exr''),
      CORE = Some example_core,
      trace = []\<rparr>"

definition outside_world :: world where
  "outside_world =
     example_world\<lparr>maya_cmds := Some \<lparr>cmds_file_sceneName = ''/other/shot01.ma''\<rparr>\<rparr>"

section \<open>Basic facts\<close>

subsection \<open>Unfolding the monad\<close>

text \<open>The primitives are unfolded together; the example worlds likewise.\<close>

lemmas py_defs = return_py_def raise_py_def bind_py_def gets_def log_event_def
  import_module_def try_except_ModuleNotFoundError_def host_call_def core_call_def
  os_path_exists_py_def

lemmas fixture_defs = example_core_def example_world_def outside_world_def backslash_def

subsection \<open>Separator replacement\<close>

lemma replace_Nil_iff: "replace a b s = [] \<longleftrightarrow> s = []"
  by (simp add: replace_def)

lemma replace_free: "old \<noteq> new \<Longrightarrow> old \<notin> set (replace old new s)"
  by (auto simp: replace_def)

lemma backslash_not_slash: "backslash \<noteq> CHR ''/''"
  by (simp add: backslash_def)

lemmas normalised = replace_free [OF backslash_not_slash]

subsection \<open>What each accessor computes\<close>

text \<open>
  Each accessor as one equation: the value it returns, read off the world, and the
  events it appends to the trace. None of them touches any other field of the world.
\<close>

lemma get_core_of_eq:
  "get_core_of host w =
     ((case host w of
         Inl (ModuleNotFoundError n) \<Rightarrow> Inr (CORE w)
       | Inl e \<Rightarrow> Inl e
       | Inr m \<Rightarrow> (case m ''pcore'' of None \<Rightarrow> Inl (AttributeError ''pcore'') | Some v \<Rightarrow> Inr v)),
      w\<lparr>trace := trace w @ [Import ''PrismInit'']\<rparr>)"
  by (simp add: get_core_of_def import_outcome_def getattr_py_def py_defs
      split: sum.splits exn.splits option.splits)

lemma get_core_eq:
  "get_core w = (Inr (resolved_core w), w\<lparr>trace := trace w @ [Import ''PrismInit'']\<rparr>)"
  by (simp add: get_core_def get_core_of_eq PrismInit_import_def split: option.splits)

lemma get_core_Some:
  "fst (get_core w) = Inr (Some c) \<Longrightarrow>
   get_core w = (Inr (Some c), w\<lparr>trace := trace w @ [Import ''PrismInit'']\<rparr>)"
  by (simp add: get_core_eq)

lemma is_prism_eq:
  "is_prism w = (Inr (truthy_obj core_bool (resolved_core w)),
                 w\<lparr>trace := trace w @ [Import ''PrismInit'']\<rparr>)"
  by (simp add: is_prism_def bind_py_def return_py_def get_core_eq split: option.splits)

lemma get_project_name_eq:
  "get_project_name w =
     (Inr (case resolved_core w of None \<Rightarrow> [] | Some c \<Rightarrow> projectName c),
      w\<lparr>trace := trace w @ [Import ''PrismInit'']\<rparr>)"
  by (simp add: get_project_name_def bind_py_def return_py_def get_core_eq split: option.splits)

lemma get_project_path_eq:
  "get_project_path w =
     (Inr (case resolved_core w of None \<Rightarrow> [] | Some c \<Rightarrow> replace backslash CHR ''/'' (projectPath c)),
      w\<lparr>trace := trace w @ [Import ''PrismInit'']\<rparr>)"
  by (simp add: get_project_path_def bind_py_def return_py_def get_core_eq split: option.splits)

lemma get_prism_folder_eq:
  "get_prism_folder w =
     (Inr (case resolved_core w of
             None \<Rightarrow> None
           | Some c \<Rightarrow> Some (replace backslash CHR ''/'' (prismRoot c))),
      w\<lparr>trace := trace w @ [Import ''PrismInit'']\<rparr>)"
  by (simp add: get_prism_folder_def bind_py_def return_py_def get_core_eq split: option.splits)

lemma get_curr_scene_file_path_eq:
  "get_curr_scene_file_path w =
     (Inr (replace backslash CHR ''/'' (host_scene_file w)),
      w\<lparr>trace := trace w @ scene_events w\<rparr>)"
  by (simp add: get_curr_scene_file_path_def py_defs replace_def split: option.splits)

lemma is_scene_in_prism_eq:
  "is_scene_in_prism w =
     (Inr (host_scene_file w \<noteq> [] \<and>
           (case resolved_core w of None \<Rightarrow> False
            | Some c \<Rightarrow> projectPath c \<noteq> [] \<and>
                prefix (replace backslash CHR ''/'' (projectPath c))
                       (replace backslash CHR ''/'' (host_scene_file w)))),
      w\<lparr>trace := trace w @ scene_events w @ [Import ''PrismInit'']\<rparr>)"
  by (simp add: is_scene_in_prism_def bind_py_def return_py_def get_curr_scene_file_path_eq
      get_project_path_eq replace_Nil_iff split: option.splits)

lemma is_scene_in_prism_trace:
  "is_scene_in_prism (w\<lparr>trace := t\<rparr>) =
     (fst (is_scene_in_prism w), w\<lparr>trace := t @ scene_events w @ [Import ''PrismInit'']\<rparr>)"
  by (simp add: is_scene_in_prism_eq cong: option.case_cong)

lemma no_core_plugins:
  assumes "PrismInit w = None" and "CORE w = None"
  shows "fst (is_maya_plugin w) = Inr False" and "fst (is_houdini_plugin w) = Inr False"
  using assms
  by (simp_all add: is_maya_plugin_def is_houdini_plugin_def get_maya_plugin_def
      get_houdini_plugin_def bind_py_def return_py_def get_core_eq truthy_obj_def)

subsection \<open>Events of a scene query\<close>

text \<open>Imports and host calls are not calls on the core.\<close>

lemma scene_events_filtered:
  "filter is_core_call
     (case m of None \<Rightarrow> [Import ''maya''] | Some x \<Rightarrow> [Import ''maya'', Maya_cmds_file]) = []"
  "filter is_core_call
     (case h of None \<Rightarrow> [Import ''hou''] | Some y \<Rightarrow> [Import ''hou'', Hou_hipFile_path]) = []"
  "filter is_path_generation
     (case m of None \<Rightarrow> [Import ''maya''] | Some x \<Rightarrow> [Import ''maya'', Maya_cmds_file]) = []"
  "filter is_path_generation
     (case h of None \<Rightarrow> [Import ''hou''] | Some y \<Rightarrow> [Import ''hou'', Hou_hipFile_path]) = []"
  by (simp_all split: option.splits)

subsection \<open>Export data and export paths\<close>

lemma export_data_not_in_prism:
  assumes "fst (get_core w) = Inr (Some c)" and "core_bool c"
    and "fst (is_scene_in_prism w) = Inr False"
  shows "get_product_export_data i e sf ef cm loc w =
     (Inl (OpenPrismAPIError ''(get_product_export_data) the current scene is not in Prism.''),
      w\<lparr>trace := trace w @ [Import ''PrismInit''] @ scene_events w @ [Import ''PrismInit'']\<rparr>)"
  by (simp add: get_product_export_data_def bind_py_def raise_py_def
      get_core_Some [OF assms(1)] assms(2,3) is_scene_in_prism_trace)

lemma media_data_not_in_prism:
  assumes "fst (get_core w) = Inr (Some c)" and "core_bool c"
    and "fst (is_scene_in_prism w) = Inr False"
  shows "get_media_product_data i e cm loc w =
     (Inl (OpenPrismAPIError ''(get_media_product_data) the current scene is not in Prism.''),
      w\<lparr>trace := trace w @ [Import ''PrismInit''] @ scene_events w @ [Import ''PrismInit'']\<rparr>)"
  by (simp add: get_media_product_data_def bind_py_def raise_py_def
      get_core_Some [OF assms(1)] assms(2,3) is_scene_in_prism_trace)

lemma playblast_data_not_in_prism:
  assumes "fst (get_core w) = Inr (Some c)" and "core_bool c"
    and "fst (is_scene_in_prism w) = Inr False"
  shows "get_playblast_product_data i e cm loc w =
     (Inl (OpenPrismAPIError
             ''(get_playblast_product_data) the current scene is not in Prism.''),
      w\<lparr>trace := trace w @ [Import ''PrismInit''] @ scene_events w @ [Import ''PrismInit'']\<rparr>)"
  by (simp add: get_playblast_product_data_def bind_py_def raise_py_def
      get_core_Some [OF assms(1)] assms(2,3) is_scene_in_prism_trace)

lemma export_file_path_normalised:
  "fst (get_product_export_file_path i e loc w) = Inr (Some s) \<Longrightarrow> backslash \<notin> set s"
  by (auto simp: get_product_export_file_path_def bind_py_def return_py_def normalised
      split: prod.splits sum.splits option.splits if_splits)

lemma media_file_path_normalised:
  "fst (get_media_export_file_path i e loc w) = Inr (Some s) \<Longrightarrow> backslash \<notin> set s"
  by (auto simp: get_media_export_file_path_def bind_py_def return_py_def normalised
      split: prod.splits sum.splits option.splits if_splits)

lemma playblast_file_path_normalised:
  "fst (get_playblast_export_file_path i e loc w) = Inr (Some s) \<Longrightarrow> backslash \<notin> set s"
  by (auto simp: get_playblast_export_file_path_def bind_py_def return_py_def normalised
      split: prod.splits sum.splits option.splits if_splits)

subsection \<open>Master versions\<close>

lemma set_product_master_version_missing:
  "\<not> os_path_exists w p \<Longrightarrow>
   set_product_master_version p w =
     (Inl (OpenPrismAPIError (''(set_product_master_version) the path do not exist: '' @ p)),
      w\<lparr>trace := trace w @ [Os_path_exists p]\<rparr>)"
  by (simp add: set_product_master_version_def py_defs)

lemma set_media_master_version_missing:
  "\<not> os_path_exists w p \<Longrightarrow>
   set_media_master_version p pb r2 w =
     (Inl (OpenPrismAPIError (''(set_media_master_version) the path do not exist: '' @ p)),
      w\<lparr>trace := trace w @ [Os_path_exists p]\<rparr>)"
  by (simp add: set_media_master_version_def py_defs)

lemma set_product_master_version_present:
  assumes "os_path_exists w p" and "fst (get_core w) = Inr (Some c)" and "core_bool c"
  shows "set_product_master_version p w =
     core_call (Core_products_updateMasterVersion p) (products_updateMasterVersion c p)
       (w\<lparr>trace := trace w @ [Os_path_exists p, Import ''PrismInit'']\<rparr>)"
  using assms
  by (simp add: set_product_master_version_def get_core_eq bind_py_def os_path_exists_py_def
      log_event_def raise_py_def split: option.splits)

lemma set_media_master_version_present:
  assumes "os_path_exists w p" and "fst (get_core w) = Inr (Some c)" and "core_bool c"
  shows "set_media_master_version p pb r2 w =
     core_call
       (Core_mediaProducts_updateMasterVersion p
          (if pb then Some ''playblasts'' else if r2 then Some ''2drenders'' else None))
       (mediaProducts_updateMasterVersion c p
          (if pb then Some ''playblasts'' else if r2 then Some ''2drenders'' else None))
       (w\<lparr>trace := trace w @ [Os_path_exists p, Import ''PrismInit'']\<rparr>)"
  using assms
  by (simp add: set_media_master_version_def get_core_eq bind_py_def os_path_exists_py_def
      log_event_def raise_py_def Let_def split: option.splits)

subsection \<open>The product browser\<close>

text \<open>\<open>request_products\<close> hands back the dialog's non-empty selection as it is.\<close>

lemma request_products_unchanged:
  assumes "fst (get_core w) = Inr (Some c)" and "core_bool c"
    and "ProductBrowser w = Some ts" and "parentWindow c = Inr ()"
    and "productPath ts = Some p" and "p \<noteq> []"
  shows "fst (request_products w) = Inr [p]"
  using assms
  by (simp add: request_products_def get_core_eq py_defs split: option.splits)

subsection \<open>Errors of \<open>get_task\<close> and \<open>get_department\<close>\<close>

text \<open>
  The only \<open>OpenPrismAPIError\<close> that \<open>get_scene_file_data\<close> raises is its own
  "core was not found"; the scene-path query before it raises nothing.
\<close>

lemma get_scene_file_data_cases:
  "fst (get_scene_file_data p w) = Inl (OpenPrismAPIError msg) \<Longrightarrow>
   msg = ''(get_scene_file_data) Prism core was not found.''"
  by (auto simp: get_scene_file_data_def bind_py_def raise_py_def core_call_def get_core_eq
      split: option.splits if_splits sum.splits)

lemma get_scene_file_data_raises:
  "get_scene_file_data p w = (Inl (OpenPrismAPIError msg), w') \<Longrightarrow>
   msg = ''(get_scene_file_data) Prism core was not found.''"
  using get_scene_file_data_cases [of p w msg] by simp

lemma get_task_error:
  "fst (get_task sp w) \<noteq> Inl (OpenPrismAPIError ''(get_task) The current scene is not in Prism.'')"
  by (auto simp: get_task_def truthy_function_def bind_py_def return_py_def
      get_curr_scene_file_path_eq split: option.splits if_splits prod.splits sum.splits
      dest!: get_scene_file_data_raises)

lemma get_department_error:
  "fst (get_department sp w) \<noteq>
     Inl (OpenPrismAPIError ''(get_department) The current scene is not in Prism.'')"
  by (auto simp: get_department_def truthy_function_def bind_py_def return_py_def
      get_curr_scene_file_path_eq split: option.splits if_splits prod.splits sum.splits
      dest!: get_scene_file_data_raises)

section \<open>The claims\<close>

subsection \<open>Scene membership\<close>



subsection \<open>Separator normalisation\<close>

text \<open>
  Claim C2 says that every path-returning operation, \<open>request_products\<close> among them,
  returns paths without a backslash. \<open>request_products\<close> (line 646) puts
  \<open>ts.productPath\<close> into the list as the dialog left it, with no \<open>replace\<close>: in
  the standalone example world, where the browser's selection is the Windows path
  \<open>C:\<close>, backslash, \<open>proj\<close>, backslash, \<open>cube.abc\<close>, the function returns
  exactly that string, and it contains a backslash.
\<close>

theorem request_products_keeps_backslash:
  "fst (request_products example_world) =
     Inr [[CHR ''C'', CHR '':'', backslash] @ ''proj'' @ [backslash] @ ''cube.abc''] \<and>
   backslash \<in> set ([CHR ''C'', CHR '':'', backslash] @ ''proj'' @ [backslash] @ ''cube.abc'')"
  by (simp add: request_products_def get_core_eq py_defs example_world_def example_core_def)

text \<open>
  The other six operations that C2 lists do normalise: whenever one of them returns a
  string, the string has no backslash in it.
\<close>

theorem path_accessors_normalised:
  "(fst (get_project_path w) = Inr s \<longrightarrow> backslash \<notin> set s) \<and>
   (fst (get_prism_folder w) = Inr (Some s) \<longrightarrow> backslash \<notin> set s) \<and>
   (fst (get_curr_scene_file_path w) = Inr s \<longrightarrow> backslash \<notin> set s) \<and>
   (fst (get_product_export_file_path i e loc w) = Inr (Some s) \<longrightarrow> backslash \<notin> set s) \<and>
   (fst (get_media_export_file_path i e loc w) = Inr (Some s) \<longrightarrow> backslash \<notin> set s) \<and>
   (fst (get_playblast_export_file_path i e loc w) = Inr (Some s) \<longrightarrow> backslash \<notin> set s)"
proof -
  have "fst (get_project_path w) = Inr s \<Longrightarrow> backslash \<notin> set s"
    by (auto simp: get_project_path_eq normalised split: option.splits)
  moreover have "fst (get_prism_folder w) = Inr (Some s) \<Longrightarrow> backslash \<notin> set s"
    by (auto simp: get_prism_folder_eq normalised split: option.splits)
  moreover have "fst (get_curr_scene_file_path w) = Inr s \<Longrightarrow> backslash \<notin> set s"
    by (auto simp: get_curr_scene_file_path_eq normalised)
  ultimately show ?thesis
    using export_file_path_normalised [of i e loc w s]
      media_file_path_normalised [of i e loc w s]
      playblast_file_path_normalised [of i e loc w s]
    by blast
qed

theorem path_accessors_normalised_witness:
  "fst (get_project_path example_world) = Inr ''C:/proj/alpha/'' \<and>
   backslash \<notin> set ''C:/proj/alpha/'' \<and>
   fst (get_product_export_file_path ''cube'' ''.abc'' None example_world) =
     Inr (Some ''C:/out/cube.abc'') \<and>
   backslash \<notin> set ''C:/out/cube.abc''"
proof -
  have a: "fst (get_project_path example_world) = Inr ''C:/proj/alpha/''"
    by (simp add: get_project_path_eq fixture_defs replace_def)
  have b: "fst (get_product_export_file_path ''cube'' ''.abc'' None example_world) =
     Inr (Some ''C:/out/cube.abc'')"
    by (simp add: get_product_export_file_path_def get_product_export_data_def
        get_core_eq is_scene_in_prism_eq get_curr_scene_file_path_eq py_defs fixture_defs
        replace_def)
  from a b
    path_accessors_normalised [of example_world "''C:/proj/alpha/''" "''cube''" "''.abc''" None]
    path_accessors_normalised [of example_world "''C:/out/cube.abc''" "''cube''" "''.abc''" None]
  show ?thesis by simp
qed

subsection \<open>Master versions\<close>

text \<open>
  Claim C3. When \<open>os.path.exists(p)\<close> is false, \<open>set_product_master_version(p)\<close> and
  \<open>set_media_master_version(p, ...)\<close>, whatever the flags, raise \<open>OpenPrismAPIError\<close>,
  and the world afterwards differs from the world before only by the logged existence
  test: \<open>PrismInit\<close> is not imported, so the core is not resolved, and no method of the
  core is called. The world is arbitrary, so this holds with and without a registered
  core.
\<close>

theorem master_version_missing_path:
  "\<not> os_path_exists w p \<Longrightarrow>
   set_product_master_version p w =
     (Inl (OpenPrismAPIError (''(set_product_master_version) the path do not exist: '' @ p)),
      w\<lparr>trace := trace w @ [Os_path_exists p]\<rparr>) \<and>
   set_media_master_version p is_playblast is_2d_render w =
     (Inl (OpenPrismAPIError (''(set_media_master_version) the path do not exist: '' @ p)),
      w\<lparr>trace := trace w @ [Os_path_exists p]\<rparr>)"
  by (simp add: set_product_master_version_missing set_media_master_version_missing)

theorem master_version_missing_path_witness:
  "\<not> os_path_exists example_world ''C:/gone.abc'' \<and>
   fst (set_product_master_version ''C:/gone.abc'' example_world) =
     Inl (OpenPrismAPIError ''(set_product_master_version) the path do not exist: C:/gone.abc'') \<and>
   trace (snd (set_product_master_version ''C:/gone.abc'' example_world)) =
     [Os_path_exists ''C:/gone.abc''] \<and>
   fst (set_media_master_version ''C:/gone.abc'' True False example_world) =
     Inl (OpenPrismAPIError ''(set_media_master_version) the path do not exist: C:/gone.abc'') \<and>
   trace (snd (set_media_master_version ''C:/gone.abc'' True False example_world)) =
     [Os_path_exists ''C:/gone.abc'']"
proof -
  have h: "\<not> os_path_exists example_world ''C:/gone.abc''"
    by (simp add: example_world_def)
  from h master_version_missing_path [OF h, of True False] show ?thesis
    by (simp add: example_world_def)
qed

text \<open>
  Claim C4. For an existing path and a core that is present (resolved and true),
  \<open>set_media_master_version\<close> is, after the existence test and the resolution of
  the core, exactly one call of the core's \<open>mediaProducts.updateMasterVersion\<close> on that
  path: with media type \<open>None\<close> when both flags are false, \<open>"playblasts"\<close> when
  \<open>is_playblast\<close> is true, \<open>"2drenders"\<close> when only \<open>is_2d_render\<close> is true. Its result
  and its effect are those of that call. The wrappers \<open>set_render_master_version\<close>,
  \<open>set_playblast_master_version\<close> and \<open>set_2d_render_master_version\<close> are these three
  cases in this order.
\<close>

theorem media_master_version_delegation:
  assumes "os_path_exists w p" and "fst (get_core w) = Inr (Some c)" and "core_bool c"
  shows
    "set_media_master_version p False False w =
       core_call (Core_mediaProducts_updateMasterVersion p None)
         (mediaProducts_updateMasterVersion c p None)
         (w\<lparr>trace := trace w @ [Os_path_exists p, Import ''PrismInit'']\<rparr>) \<and>
     set_media_master_version p True is_2d_render w =
       core_call (Core_mediaProducts_updateMasterVersion p (Some ''playblasts''))
         (mediaProducts_updateMasterVersion c p (Some ''playblasts''))
         (w\<lparr>trace := trace w @ [Os_path_exists p, Import ''PrismInit'']\<rparr>) \<and>
     set_media_master_version p False True w =
       core_call (Core_mediaProducts_updateMasterVersion p (Some ''2drenders''))
         (mediaProducts_updateMasterVersion c p (Some ''2drenders''))
         (w\<lparr>trace := trace w @ [Os_path_exists p, Import ''PrismInit'']\<rparr>) \<and>
     set_render_master_version p w =
       core_call (Core_mediaProducts_updateMasterVersion p None)
         (mediaProducts_updateMasterVersion c p None)
         (w\<lparr>trace := trace w @ [Os_path_exists p, Import ''PrismInit'']\<rparr>) \<and>
     set_playblast_master_version p w =
       core_call (Core_mediaProducts_updateMasterVersion p (Some ''playblasts''))
         (mediaProducts_updateMasterVersion c p (Some ''playblasts''))
         (w\<lparr>trace := trace w @ [Os_path_exists p, Import ''PrismInit'']\<rparr>) \<and>
     set_2d_render_master_version p w =
       core_call (Core_mediaProducts_updateMasterVersion p (Some ''2drenders''))
         (mediaProducts_updateMasterVersion c p (Some ''2drenders''))
         (w\<lparr>trace := trace w @ [Os_path_exists p, Import ''PrismInit'']\<rparr>)"
  by (simp add: set_media_master_version_present [OF assms] set_render_master_version_def
      set_playblast_master_version_def set_2d_render_master_version_def)

theorem media_master_version_delegation_witness:
  "os_path_exists example_world ''C:/proj/alpha/renders/beauty.exr'' \<and>
   fst (get_core example_world) = Inr (Some example_core) \<and>
   core_bool example_core \<and>
   trace (snd (set_render_master_version ''C:/proj/alpha/renders/beauty.exr'' example_world)) =
     [Os_path_exists ''C:/proj/alpha/renders/beauty.exr'', Import ''PrismInit'',
      Core_mediaProducts_updateMasterVersion ''C:/proj/alpha/renders/beauty.exr'' None] \<and>
   trace (snd (set_playblast_master_version ''C:/proj/alpha/renders/beauty.exr''
                 example_world)) =
     [Os_path_exists ''C:/proj/alpha/renders/beauty.exr'', Import ''PrismInit'',
      Core_mediaProducts_updateMasterVersion ''C:/proj/alpha/renders/beauty.exr''
        (Some ''playblasts'')] \<and>
   trace (snd (set_2d_render_master_version ''C:/proj/alpha/renders/beauty.exr''
                 example_world)) =
     [Os_path_exists ''C:/proj/alpha/renders/beauty.exr'', Import ''PrismInit'',
      Core_mediaProducts_updateMasterVersion ''C:/proj/alpha/renders/beauty.exr''
        (Some ''2drenders'')] \<and>
   fst (set_render_master_version ''C:/proj/alpha/renders/beauty.exr'' example_world) = Inr ()"
proof -
  have h1: "os_path_exists example_world ''C:/proj/alpha/renders/beauty.exr''"
    by (simp add: example_world_def)
  have h2: "fst (get_core example_world) = Inr (Some example_core)"
    by (simp add: get_core_eq example_world_def)
  have h3: "core_bool example_core"
    by (simp add: example_core_def)
  from h1 h2 h3 media_master_version_delegation [OF h1 h2 h3, of False] show ?thesis
    by (simp add: core_call_def log_event_def example_world_def example_core_def)
qed

text \<open>
  Claim C10. For an existing path and a core that is present, with both flags true the
  call goes to the core with media type \<open>"playblasts"\<close>: the playblast flag is tested
  first.
\<close>

theorem playblast_flag_precedence:
  assumes "os_path_exists w p" and "fst (get_core w) = Inr (Some c)" and "core_bool c"
  shows
    "set_media_master_version p True True w =
       core_call (Core_mediaProducts_updateMasterVersion p (Some ''playblasts''))
         (mediaProducts_updateMasterVersion c p (Some ''playblasts''))
         (w\<lparr>trace := trace w @ [Os_path_exists p, Import ''PrismInit'']\<rparr>)"
  by (simp add: set_media_master_version_present [OF assms])

theorem playblast_flag_precedence_witness:
  "os_path_exists example_world ''C:/proj/alpha/renders/beauty.exr'' \<and>
   fst (get_core example_world) = Inr (Some example_core) \<and>
   core_bool example_core \<and>
   set_media_master_version ''C:/proj/alpha/renders/beauty.exr'' True True example_world =
     (Inr (),
      example_world\<lparr>trace :=
        [Os_path_exists ''C:/proj/alpha/renders/beauty.exr'', Import ''PrismInit'',
         Core_mediaProducts_updateMasterVersion ''C:/proj/alpha/renders/beauty.exr''
           (Some ''playblasts'')]\<rparr>)"
proof -
  have h1: "os_path_exists example_world ''C:/proj/alpha/renders/beauty.exr''"
    by (simp add: example_world_def)
  have h2: "fst (get_core example_world) = Inr (Some example_core)"
    by (simp add: get_core_eq example_world_def)
  have h3: "core_bool example_core"
    by (simp add: example_core_def)
  from h1 h2 h3 playblast_flag_precedence [OF h1 h2 h3] show ?thesis
    by (simp add: core_call_def log_event_def example_world_def example_core_def)
qed

subsection \<open>Export data outside the project\<close>

text \<open>
  Claim C5. When a core is present and \<open>is_scene_in_prism\<close> answers \<open>False\<close>,
  \<open>get_product_export_data\<close>, \<open>get_product_export_file_path\<close>,
  \<open>get_media_product_data\<close> and \<open>get_playblast_product_data\<close> raise
  \<open>OpenPrismAPIError\<close> with the message that the current scene is not in Prism, and
  the trace gains no call of a path-generation method (indeed no method call on the
  core at all).
\<close>

theorem export_data_outside_project:
  assumes "fst (get_core w) = Inr (Some c)" and "core_bool c"
    and "fst (is_scene_in_prism w) = Inr False"
  shows
    "fst (get_product_export_data i e sf ef cm loc w) =
       Inl (OpenPrismAPIError ''(get_product_export_data) the current scene is not in Prism.'') \<and>
     filter is_path_generation (trace (snd (get_product_export_data i e sf ef cm loc w))) =
       filter is_path_generation (trace w) \<and>
     filter is_core_call (trace (snd (get_product_export_data i e sf ef cm loc w))) =
       filter is_core_call (trace w) \<and>
     fst (get_product_export_file_path i e loc w) =
       Inl (OpenPrismAPIError ''(get_product_export_data) the current scene is not in Prism.'') \<and>
     filter is_path_generation (trace (snd (get_product_export_file_path i e loc w))) =
       filter is_path_generation (trace w) \<and>
     filter is_core_call (trace (snd (get_product_export_file_path i e loc w))) =
       filter is_core_call (trace w) \<and>
     fst (get_media_product_data i e cm loc w) =
       Inl (OpenPrismAPIError ''(get_media_product_data) the current scene is not in Prism.'') \<and>
     filter is_path_generation (trace (snd (get_media_product_data i e cm loc w))) =
       filter is_path_generation (trace w) \<and>
     filter is_core_call (trace (snd (get_media_product_data i e cm loc w))) =
       filter is_core_call (trace w) \<and>
     fst (get_playblast_product_data i e cm loc w) =
       Inl (OpenPrismAPIError
              ''(get_playblast_product_data) the current scene is not in Prism.'') \<and>
     filter is_path_generation (trace (snd (get_playblast_product_data i e cm loc w))) =
       filter is_path_generation (trace w) \<and>
     filter is_core_call (trace (snd (get_playblast_product_data i e cm loc w))) =
       filter is_core_call (trace w)"
  by (simp add: export_data_not_in_prism [OF assms] media_data_not_in_prism [OF assms]
      playblast_data_not_in_prism [OF assms] get_product_export_file_path_def bind_py_def
      scene_events_filtered)

theorem export_data_outside_project_witness:
  "fst (get_core outside_world) = Inr (Some example_core) \<and>
   core_bool example_core \<and>
   fst (is_scene_in_prism outside_world) = Inr False \<and>
   fst (get_product_export_file_path ''cube'' ''.abc'' None outside_world) =
     Inl (OpenPrismAPIError ''(get_product_export_data) the current scene is not in Prism.'') \<and>
   filter is_path_generation
     (trace (snd (get_product_export_file_path ''cube'' ''.abc'' None outside_world))) = [] \<and>
   fst (get_media_product_data ''beauty'' ''.exr'' None None outside_world) =
     Inl (OpenPrismAPIError ''(get_media_product_data) the current scene is not in Prism.'') \<and>
   fst (get_playblast_product_data ''pb'' ''.mov'' None None outside_world) =
     Inl (OpenPrismAPIError
            ''(get_playblast_product_data) the current scene is not in Prism.'')"
proof -
  have h1: "fst (get_core outside_world) = Inr (Some example_core)"
    by (simp add: get_core_eq outside_world_def example_world_def)
  have h2: "core_bool example_core"
    by (simp add: example_core_def)
  have h3: "fst (is_scene_in_prism outside_world) = Inr False"
    by (simp add: is_scene_in_prism_eq fixture_defs replace_def)
  from h1 h2 h3
    export_data_outside_project [OF h1 h2 h3, of "''cube''" "''.abc''" None None None None]
    export_data_outside_project [OF h1 h2 h3, of "''beauty''" "''.exr''" None None None None]
    export_data_outside_project [OF h1 h2 h3, of "''pb''" "''.mov''" None None None None]
  show ?thesis
    by (simp add: outside_world_def example_world_def)
qed

subsection \<open>Without a core\<close>

text \<open>
  Claim C6. When \<open>PrismInit\<close> cannot be imported and no reference is registered,
  \<open>get_project_name\<close> and \<open>get_project_path\<close> return the empty string,
  \<open>get_prism_folder\<close> returns \<open>None\<close>, and \<open>is_prism\<close>, \<open>is_maya_plugin\<close> and
  \<open>is_houdini_plugin\<close> return \<open>False\<close>; none of them raises.
\<close>

theorem no_core_accessors:
  assumes "PrismInit w = None" and "CORE w = None"
  shows
    "fst (get_project_name w) = Inr [] \<and>
     fst (get_project_path w) = Inr [] \<and>
     fst (get_prism_folder w) = Inr None \<and>
     fst (is_prism w) = Inr False \<and>
     fst (is_maya_plugin w) = Inr False \<and>
     fst (is_houdini_plugin w) = Inr False"
  using assms
  by (simp add: get_project_name_eq get_project_path_eq get_prism_folder_eq is_prism_eq
      truthy_obj_def no_core_plugins)

theorem no_core_accessors_witness:
  "PrismInit (module_init example_world) = None \<and>
   CORE (module_init example_world) = None \<and>
   fst (get_project_name (module_init example_world)) = Inr [] \<and>
   fst (get_project_path (module_init example_world)) = Inr [] \<and>
   fst (get_prism_folder (module_init example_world)) = Inr None \<and>
   fst (is_prism (module_init example_world)) = Inr False \<and>
   fst (is_maya_plugin (module_init example_world)) = Inr False \<and>
   fst (is_houdini_plugin (module_init example_world)) = Inr False"
proof -
  have h1: "PrismInit (module_init example_world) = None"
    by (simp add: module_init_def example_world_def)
  have h2: "CORE (module_init example_world) = None"
    by (simp add: module_init_def)
  from h1 h2 no_core_accessors [OF h1 h2] show ?thesis by simp
qed

subsection \<open>Resolving the core\<close>

text \<open>
  Claim C7. When \<open>PrismInit\<close> cannot be imported, \<open>get_core()\<close> after \<open>set_core(c)\<close>
  returns \<open>c\<close>, for every \<open>c\<close> (a core object or \<open>None\<close>).
\<close>

theorem set_core_then_get_core:
  "PrismInit w = None \<Longrightarrow> fst (get_core (snd (set_core c w))) = Inr c"
  by (simp add: get_core_eq set_core_def)

theorem set_core_then_get_core_witness:
  "PrismInit (module_init example_world) = None \<and>
   fst (get_core (snd (set_core (Some example_core) (module_init example_world)))) =
     Inr (Some example_core) \<and>
   fst (get_core (snd (set_core None example_world))) = Inr None"
proof -
  have h1: "PrismInit (module_init example_world) = None"
    by (simp add: module_init_def example_world_def)
  have h2: "PrismInit example_world = None"
    by (simp add: example_world_def)
  from h1 set_core_then_get_core [OF h1, of "Some example_core"]
    set_core_then_get_core [OF h2, of None]
  show ?thesis by simp
qed

text \<open>
  Claim C8 says that \<open>get_core\<close> never raises. The handler of lines 57-58 covers
  \<open>ModuleNotFoundError\<close> only, and line 60 reads \<open>PrismInit.pcore\<close> after the \<open>try\<close>
  statement. On a host where \<open>PrismInit\<close> can be imported but has no attribute
  \<open>pcore\<close> (the integration is installed, its core has not been created), \<open>get_core\<close>
  raises \<open>AttributeError\<close>, also when a reference has been registered with \<open>set_core\<close>,
  which the docstring says is returned when the host's reference is not found. Below,
  the import binds a module without attributes and \<open>example_world\<close> holds a registered
  core.
\<close>

theorem get_core_missing_pcore_raises:
  "CORE example_world = Some example_core \<and>
   get_core_of (\<lambda>w. Inr Map.empty) example_world =
     (Inl (AttributeError ''pcore''), example_world\<lparr>trace := [Import ''PrismInit'']\<rparr>)"
  by (simp add: get_core_of_def import_outcome_def getattr_py_def py_defs example_world_def)

text \<open>
  What \<open>get_core\<close> does for every outcome of the import: it logs the import attempt
  and nothing else; when the import raises \<open>ModuleNotFoundError\<close> it returns \<open>CORE\<close>;
  any other exception of the import goes on to the caller; when the module is there it
  returns its \<open>pcore\<close>, whatever is registered, and raises \<open>AttributeError\<close> when the
  module has none.
\<close>

theorem get_core_of_resolution:
  "get_core_of host w =
     ((case host w of
         Inl (ModuleNotFoundError n) \<Rightarrow> Inr (CORE w)
       | Inl e \<Rightarrow> Inl e
       | Inr m \<Rightarrow> (case m ''pcore'' of None \<Rightarrow> Inl (AttributeError ''pcore'') | Some v \<Rightarrow> Inr v)),
      w\<lparr>trace := trace w @ [Import ''PrismInit'']\<rparr>)"
  by (rule get_core_of_eq)

theorem get_core_of_resolution_witness:
  "fst (get_core_of (\<lambda>w. Inr [''pcore'' \<mapsto> Some example_core]) (module_init example_world)) =
     Inr (Some example_core) \<and>
   fst (get_core_of (\<lambda>w. Inl (ModuleNotFoundError ''PrismInit'')) example_world) =
     Inr (Some example_core) \<and>
   fst (get_core_of (\<lambda>w. Inl (ModuleNotFoundError ''PrismInit'')) (module_init example_world)) =
     Inr None \<and>
   fst (get_core_of (\<lambda>w. Inl (ForeignError ''ImportError'')) example_world) =
     Inl (ForeignError ''ImportError'') \<and>
   fst (get_core_of (\<lambda>w. Inr Map.empty) example_world) = Inl (AttributeError ''pcore'')"
  using get_core_of_resolution [of "\<lambda>w. Inr [''pcore'' \<mapsto> Some example_core]"
      "module_init example_world"]
    get_core_of_resolution [of "\<lambda>w. Inl (ModuleNotFoundError ''PrismInit'')" example_world]
    get_core_of_resolution [of "\<lambda>w. Inl (ModuleNotFoundError ''PrismInit'')"
      "module_init example_world"]
    get_core_of_resolution [of "\<lambda>w. Inl (ForeignError ''ImportError'')" example_world]
    get_core_of_resolution [of "\<lambda>w. Inr Map.empty" example_world]
  by (simp add: example_world_def module_init_def)

subsection \<open>The scene test of \<open>get_task\<close> and \<open>get_department\<close>\<close>

text \<open>
  Claim C9. The first test of \<open>get_task\<close> and of \<open>get_department\<close> takes the truth
  value of the function object \<open>is_scene_in_prism\<close>, which is true, instead of calling
  it. So for every argument and every world neither function raises its
  "The current scene is not in Prism." error.
\<close>

theorem scene_guard_never_raises:
  "truthy_function is_scene_in_prism \<and>
   fst (get_task scene_path w) \<noteq>
     Inl (OpenPrismAPIError ''(get_task) The current scene is not in Prism.'') \<and>
   fst (get_department scene_path w) \<noteq>
     Inl (OpenPrismAPIError ''(get_department) The current scene is not in Prism.'')"
  by (simp add: truthy_function_def get_task_error get_department_error)

theorem scene_guard_never_raises_witness:
  "fst (is_scene_in_prism outside_world) = Inr False \<and>
   fst (get_task None outside_world) = Inr (Some ''anim'') \<and>
   fst (get_department None outside_world) = Inr (Some ''layout'') \<and>
   fst (get_task None outside_world) \<noteq>
     Inl (OpenPrismAPIError ''(get_task) The current scene is not in Prism.'') \<and>
   fst (get_department None outside_world) \<noteq>
     Inl (OpenPrismAPIError ''(get_department) The current scene is not in Prism.'')"
proof -
  have a: "fst (is_scene_in_prism outside_world) = Inr False"
    by (simp add: is_scene_in_prism_eq fixture_defs replace_def)
  have b: "fst (get_task None outside_world) = Inr (Some ''anim'')"
    by (simp add: get_task_def get_scene_file_data_def truthy_function_def get_core_eq
        get_curr_scene_file_path_eq py_defs fixture_defs replace_def)
  have c: "fst (get_department None outside_world) = Inr (Some ''layout'')"
    by (simp add: get_department_def get_scene_file_data_def truthy_function_def get_core_eq
        get_curr_scene_file_path_eq py_defs fixture_defs replace_def)
  from a b c scene_guard_never_raises [of None outside_world] show ?thesis
    by blast
qed

end
